theory Spec2Isabelle
  imports Complex_Main
begin

section \<open>The layout engine of \<^verbatim>\<open>crawl-ref/source/ui.cc\<close>\<close>

text \<open>
  A shallow embedding of the hierarchical layout system of \<^verbatim>\<open>ui.cc\<close>.

  \<^item> C++ \<^verbatim>\<open>int\<close> is modelled as \<^typ>\<open>int\<close>: signed overflow is undefined behaviour
    in C++ and is not modelled.
  \<^item> \<^verbatim>\<open>ASSERT\<close> failures, reads outside a vector and a division by zero are the
    values of \<open>error\<close>; a function that can hit one returns \<open>error + 'a\<close>.
  \<^item> The two places that compute in \<^verbatim>\<open>float\<close> (\<^verbatim>\<open>Box::layout_main_axis\<close> and
    \<^verbatim>\<open>Grid::layout_track\<close>) are modelled with exact real arithmetic followed by the
    C++ conversion to \<^verbatim>\<open>int\<close>, which truncates towards zero. Rounding of
    single-precision values is not modelled.
  \<^item> Widgets are objects that are mutated in place. The tree of widgets (what the
    callers configure: margins, flags, children) is a datatype; what a layout pass
    mutates (the size caches, the assigned region, the track arrays of a grid) lives in
    a store indexed by the address of the widget.
\<close>

subsection \<open>Values\<close>

datatype error = AssertionFailed | OutOfRange | DivisionByZero

text \<open>
  \<^verbatim>\<open>enum Direction { HORZ = 0, VERT }\<close>. A parameter \<^verbatim>\<open>dim\<close> of the source is written
  \<open>dir\<close> here (\<open>dim\<close> is a constant of the library).
\<close>

datatype Direction = HORZ | VERT

text \<open>
  Modelled from the spec: \<^verbatim>\<open>Widget::Align\<close> is declared in \<^verbatim>\<open>ui.h\<close>. The spec lists
  inherit, start, center, end and stretch; the code tests \<^verbatim>\<open>align_self\<close> for zero to see
  whether it is set, so the first value is the unset one.
\<close>

datatype Align = INHERIT | START | CENTER | END | STRETCH

text \<open>
  Modelled from the spec: \<^verbatim>\<open>Box::Justify\<close> is declared in \<^verbatim>\<open>ui.h\<close>; the code uses
  \<^verbatim>\<open>justify_items - Box::Justify::START\<close> as 0, 1 or 2.
\<close>

datatype Justify = JUSTIFY_START | JUSTIFY_CENTER | JUSTIFY_END

fun justify_pos :: "Justify \<Rightarrow> int" where
  "justify_pos JUSTIFY_START = 0"
| "justify_pos JUSTIFY_CENTER = 1"
| "justify_pos JUSTIFY_END = 2"

text \<open>\<^verbatim>\<open>struct SizeReq { int min, nat; }\<close>.\<close>

record SizeReq =
  min_sz :: int
  nat_sz :: int

text \<open>\<^verbatim>\<open>i4\<close>: four integers, a rectangle \<open>(x, y, width, height)\<close> or the four margins.\<close>

type_synonym i4 = "int \<times> int \<times> int \<times> int"

fun i4_0 :: "i4 \<Rightarrow> int" where "i4_0 (a, b, c, d) = a"
fun i4_1 :: "i4 \<Rightarrow> int" where "i4_1 (a, b, c, d) = b"
fun i4_2 :: "i4 \<Rightarrow> int" where "i4_2 (a, b, c, d) = c"
fun i4_3 :: "i4 \<Rightarrow> int" where "i4_3 (a, b, c, d) = d"

text \<open>\<^verbatim>\<open>r[n]\<close> and \<^verbatim>\<open>r[n] = v\<close> for an index that the code computes (\<open>n\<close> is 0 to 3).\<close>

fun i4_get :: "i4 \<Rightarrow> nat \<Rightarrow> int" where
  "i4_get (a, b, c, d) n = (if n = 0 then a else if n = 1 then b else if n = 2 then c else d)"

fun i4_set :: "i4 \<Rightarrow> nat \<Rightarrow> int \<Rightarrow> i4" where
  "i4_set (a, b, c, d) n v =
     (if n = 0 then (v, b, c, d) else if n = 1 then (a, v, c, d)
      else if n = 2 then (a, b, v, d) else (a, b, c, v))"

text \<open>C++ integer division truncates towards zero.\<close>

definition cdiv :: "int \<Rightarrow> int \<Rightarrow> int" where
  "cdiv a b = sgn a * sgn b * (\<bar>a\<bar> div \<bar>b\<bar>)"

text \<open>The conversion of a \<^verbatim>\<open>float\<close> to \<^verbatim>\<open>int\<close> drops the fractional part.\<close>

definition float_to_int :: "real \<Rightarrow> int" where
  "float_to_int q = (if 0 \<le> q then \<lfloor>q\<rfloor> else \<lceil>q\<rceil>)"

subsection \<open>\<^verbatim>\<open>Box::layout_main_axis\<close>\<close>

text \<open>
  The function reads three parallel vectors of \<^verbatim>\<open>m_children.size()\<close> entries:
  the children (for their \<^verbatim>\<open>flex_grow\<close>), \<^verbatim>\<open>ch_psz\<close> and \<^verbatim>\<open>ch_sz\<close>. Every loop visits the
  indices in order and touches entry \<open>i\<close> of each only, so the loops are recursions
  over the three lists side by side.

  \<open>sum_flex_grow\<close> is the first inner loop: the weights of the children that are still
  below their natural size.
\<close>

fun sum_flex_grow :: "int list \<Rightarrow> SizeReq list \<Rightarrow> int list \<Rightarrow> int" where
  "sum_flex_grow (fg # fgs) (p # ps) (s # ss) =
     (if s < nat_sz p then fg else 0) + sum_flex_grow fgs ps ss"
| "sum_flex_grow _ _ _ = 0"

text \<open>
  The second inner loop hands out \<open>extra\<close>. It returns the new sizes and the
  \<^verbatim>\<open>remainder\<close>, or fails on \<^verbatim>\<open>ASSERT(ch_sz[i] <= ch_psz[i].nat)\<close>.
\<close>

fun distribute ::
  "int \<Rightarrow> int \<Rightarrow> int list \<Rightarrow> SizeReq list \<Rightarrow> int list \<Rightarrow> error + (int list \<times> int)" where
  "distribute extra sfg (fg # fgs) (p # ps) (s # ss) =
     (let efg = (if s < nat_sz p then fg else 0);
          ch_extra = float_to_int (of_int extra * of_int efg / of_int sfg)
      in if \<not> s \<le> nat_sz p then Inl AssertionFailed
         else let taken = min ch_extra (nat_sz p - s)
              in (case distribute extra sfg fgs ps ss of
                    Inl e \<Rightarrow> Inl e
                  | Inr (ss', remainder) \<Rightarrow>
                      Inr ((s + taken) # ss', (ch_extra - taken) + remainder)))"
| "distribute extra sfg _ _ _ = Inr ([], 0)"

text \<open>The number of children that are below their natural size.\<close>

fun unsaturated :: "SizeReq list \<Rightarrow> int list \<Rightarrow> nat" where
  "unsaturated (p # ps) (s # ss) = (if s < nat_sz p then 1 else 0) + unsaturated ps ss"
| "unsaturated _ _ = 0"

lemma distribute_length:
  "distribute extra sfg fgs ps ss = Inr (ss', r) \<Longrightarrow>
   length ss' = min (length fgs) (min (length ps) (length ss))"
proof (induction extra sfg fgs ps ss arbitrary: ss' r rule: distribute.induct)
  case (1 extra sfg fg fgs p ps s ss)
  then show ?case
    by (auto simp: Let_def split: if_splits sum.splits prod.splits)
qed auto

lemma distribute_remainder_nonneg:
  "distribute extra sfg fgs ps ss = Inr (ss', r) \<Longrightarrow> 0 \<le> r"
proof (induction extra sfg fgs ps ss arbitrary: ss' r rule: distribute.induct)
  case (1 extra sfg fg fgs p ps s ss)
  then show ?case
    by (auto simp: Let_def split: if_splits sum.splits prod.splits)
qed auto

lemma distribute_unsaturated:
  "distribute extra sfg fgs ps ss = Inr (ss', r) \<Longrightarrow>
   unsaturated ps ss' \<le> unsaturated ps ss \<and> (0 < r \<longrightarrow> unsaturated ps ss' < unsaturated ps ss)"
proof (induction extra sfg fgs ps ss arbitrary: ss' r rule: distribute.induct)
  case (1 extra sfg fg fgs p ps s ss)
  from "1.prems" obtain ss1 r1 where
    d: "distribute extra sfg fgs ps ss = Inr (ss1, r1)" and le: "s \<le> nat_sz p"
    by (auto simp: Let_def split: if_splits sum.splits prod.splits)
  note ih = "1.IH"[OF refl refl _ refl d]
  from distribute_remainder_nonneg[OF d] have r1: "0 \<le> r1" .
  show ?case
  proof (cases "s < nat_sz p")
    case True
    with "1.prems" d le ih r1 show ?thesis
      by (auto simp: Let_def min_def split: if_splits)
  next
    case False
    with le have eq: "s = nat_sz p" by simp
    with "1.prems" d ih r1 show ?thesis
      by (auto simp: Let_def float_to_int_def split: if_splits)
  qed
qed auto

text \<open>
  The \<^verbatim>\<open>while (extra > 0)\<close> loop. Every round that leaves a positive remainder has
  brought at least one more child to its natural size, which is why the loop ends.
\<close>

function flex_loop ::
  "int list \<Rightarrow> SizeReq list \<Rightarrow> int list \<Rightarrow> int \<Rightarrow> error + int list" where
  "flex_loop fgs ps ch_sz extra =
     (if 0 < extra then
        (if sum_flex_grow fgs ps ch_sz = 0 then Inr ch_sz
         else (case distribute extra (sum_flex_grow fgs ps ch_sz) fgs ps ch_sz of
                 Inl e \<Rightarrow> Inl e
               | Inr (ch_sz', remainder) \<Rightarrow> flex_loop fgs ps ch_sz' remainder))
      else Inr ch_sz)"
  by pat_completeness auto
termination
proof (relation "measure (\<lambda>(fgs, ps, ch_sz, extra).
                   2 * unsaturated ps ch_sz + (if 0 < extra then 1 else 0))")
  show "wf (measure (\<lambda>(fgs, ps, ch_sz, extra).
              2 * unsaturated ps ch_sz + (if 0 < extra then 1 else 0)))"
    by simp
next
  fix fgs :: "int list" and ps :: "SizeReq list" and ch_sz :: "int list" and extra :: int
    and x2 :: "int list \<times> int" and ss' :: "int list" and r :: int
  assume pos: "0 < extra"
    and d: "distribute extra (sum_flex_grow fgs ps ch_sz) fgs ps ch_sz = Inr x2"
    and x2: "(ss', r) = x2"
  from d x2 have "distribute extra (sum_flex_grow fgs ps ch_sz) fgs ps ch_sz = Inr (ss', r)"
    by simp
  from distribute_unsaturated[OF this] pos
  show "((fgs, ps, ss', r), (fgs, ps, ch_sz, extra))
        \<in> measure (\<lambda>(fgs, ps, ch_sz, extra).
              2 * unsaturated ps ch_sz + (if 0 < extra then 1 else 0))"
    by auto
qed

declare flex_loop.simps [simp del]

text \<open>
  \<^verbatim>\<open>Box::layout_main_axis\<close>: every child starts at its minimum, the budget must cover
  the minimums (\<^verbatim>\<open>ASSERT(extra >= 0)\<close>), then the loop grows the children.
  \<open>fgs\<close> is \<^verbatim>\<open>m_children[i]->flex_grow\<close>.
\<close>

definition layout_main_axis :: "int list \<Rightarrow> SizeReq list \<Rightarrow> int \<Rightarrow> error + int list" where
  "layout_main_axis fgs ch_psz main_sz =
     (let ch_sz = map min_sz (take (length fgs) ch_psz);
          extra = main_sz - sum_list ch_sz
      in if \<not> 0 \<le> extra then Inl AssertionFailed
         else flex_loop fgs ch_psz ch_sz extra)"

subsection \<open>\<^verbatim>\<open>Box::layout_cross_axis\<close>\<close>

text \<open>
  \<open>aligns\<close> is \<^verbatim>\<open>m_children[i]->align_self\<close>. A child is stretched when its own
  \<^verbatim>\<open>align_self\<close> is \<^verbatim>\<open>STRETCH\<close>, and otherwise when the container's \<^verbatim>\<open>align_items\<close> is.
\<close>

fun layout_cross_axis :: "Align \<Rightarrow> Align list \<Rightarrow> SizeReq list \<Rightarrow> int \<Rightarrow> int list" where
  "layout_cross_axis align_items (a # aligns) (p # ps) cross_sz =
     (let stretch = (if a = STRETCH then True else align_items = STRETCH)
      in (if stretch then cross_sz else min (max (min_sz p) cross_sz) (nat_sz p))
         # layout_cross_axis align_items aligns ps cross_sz)"
| "layout_cross_axis align_items _ _ cross_sz = []"

text \<open>
  The alignment \<^verbatim>\<open>Box::_allocate_region\<close> places a child with:
  \<^verbatim>\<open>child->align_self ? child->align_self : align_items ? align_items : Align::START\<close>.
\<close>

definition child_align :: "Align \<Rightarrow> Align \<Rightarrow> Align" where
  "child_align a align_items =
     (if a \<noteq> INHERIT then a
      else if align_items \<noteq> INHERIT then align_items
      else START)"

subsection \<open>Grid tracks\<close>

text \<open>
  Modelled from the spec: \<^verbatim>\<open>track_info\<close> and \<^verbatim>\<open>child_info\<close> are declared in \<^verbatim>\<open>ui.h\<close>.
  A track holds an aggregated SizeReq, a resolved size, a resolved offset and a
  \<^verbatim>\<open>flex_grow\<close> weight; a child has a cell position \<open>(column, row)\<close> and a span
  \<open>(columns, rows)\<close>. The fields carry a suffix where the name is taken.
\<close>

record track_info =
  sr_tr :: SizeReq
  size_tr :: int
  offset_tr :: int
  flex_grow_tr :: int

record child_info =
  pos_ci :: "int \<times> int"
  span_ci :: "int \<times> int"

text \<open>
  A \<^verbatim>\<open>float\<close> division. Dividing by zero does not trap in C++, but its result cannot be
  converted to \<^verbatim>\<open>int\<close>; the model makes it an error.
\<close>

definition fdiv :: "real \<Rightarrow> real \<Rightarrow> error + real" where
  "fdiv x y = (if y = 0 then Inl DivisionByZero else Inr (x / y))"

text \<open>
  \<^verbatim>\<open>Grid::layout_track\<close> on the track array that \<^verbatim>\<open>dim\<close> selects: one pass,
  \<^verbatim>\<open>infos[i].size = infos[i].sr.min + extra*infos[i].flex_grow\<close> with \<^verbatim>\<open>extra\<close> a
  \<^verbatim>\<open>float\<close>, stored in an \<^verbatim>\<open>int\<close>.
\<close>

definition layout_track :: "SizeReq \<Rightarrow> int \<Rightarrow> track_info list \<Rightarrow> error + track_info list" where
  "layout_track sr sz infos =
     (let extra = (of_int (sz - min_sz sr) :: real)
      in if \<not> 0 \<le> extra then Inl AssertionFailed
         else let sum_fg = sum_list (map flex_grow_tr infos)
              in (case (if 0 < sum_fg then fdiv extra (of_int sum_fg) else Inr 0) of
                    Inl e \<Rightarrow> Inl e
                  | Inr extra' \<Rightarrow>
                      Inr (map (\<lambda>t. t\<lparr>size_tr :=
                                  float_to_int (of_int (min_sz (sr_tr t))
                                                + extra' * of_int (flex_grow_tr t))\<rparr>) infos)))"

text \<open>\<^verbatim>\<open>Grid::set_track_offsets\<close>: the running sum of the sizes.\<close>

fun set_track_offsets_from :: "int \<Rightarrow> track_info list \<Rightarrow> track_info list" where
  "set_track_offsets_from off [] = []"
| "set_track_offsets_from off (t # ts) =
     t\<lparr>offset_tr := off\<rparr> # set_track_offsets_from (off + size_tr t) ts"

definition set_track_offsets :: "track_info list \<Rightarrow> track_info list" where
  "set_track_offsets tracks = set_track_offsets_from 0 tracks"

text \<open>The sums \<^verbatim>\<open>w_sr\<close> and \<^verbatim>\<open>h_sr\<close> of \<^verbatim>\<open>Grid::_get_preferred_size\<close>.\<close>

definition track_total :: "track_info list \<Rightarrow> SizeReq" where
  "track_total tracks =
     \<lparr>min_sz = sum_list (map (\<lambda>t. min_sz (sr_tr t)) tracks),
      nat_sz = sum_list (map (\<lambda>t. nat_sz (sr_tr t)) tracks)\<rparr>"

text \<open>
  Modelled from the spec: \<^verbatim>\<open>Grid::get_tracks_region\<close> is declared in \<^verbatim>\<open>ui.h\<close>. The spec:
  the rectangle spanning the cell range on both axes, offset = the first spanned track's
  offset, extent = the sum of the spanned tracks' sizes. A cell range outside the
  track arrays is a read outside a vector.
\<close>

definition get_tracks_region ::
  "track_info list \<Rightarrow> track_info list \<Rightarrow> int \<Rightarrow> int \<Rightarrow> int \<Rightarrow> int \<Rightarrow> error + i4" where
  "get_tracks_region cols rows x y w h =
     (if 0 \<le> x \<and> 0 \<le> y \<and> 1 \<le> w \<and> 1 \<le> h
         \<and> x + w \<le> int (length cols) \<and> y + h \<le> int (length rows)
      then Inr (offset_tr (cols ! nat x), offset_tr (rows ! nat y),
                sum_list (map size_tr (take (nat w) (drop (nat x) cols))),
                sum_list (map size_tr (take (nat h) (drop (nat y) rows))))
      else Inl OutOfRange)"

text \<open>
  The body of the child loop of \<^verbatim>\<open>Grid::compute_track_sizereqs\<close> after the child has
  reported \<open>c\<close>: only a child with \<^verbatim>\<open>cs[0] == 1 && cs[1] == 1\<close> is merged into
  \<^verbatim>\<open>track[cp[dim]].sr\<close>.
\<close>

definition merge_child_sr ::
  "Direction \<Rightarrow> child_info \<Rightarrow> SizeReq \<Rightarrow> track_info list \<Rightarrow> error + track_info list" where
  "merge_child_sr dir info c track =
     (if fst (span_ci info) = 1 \<and> snd (span_ci info) = 1
      then (let k = (if dir = VERT then snd (pos_ci info) else fst (pos_ci info))
            in if 0 \<le> k \<and> k < int (length track)
               then Inr (track[nat k := (track ! nat k)\<lparr>sr_tr :=
                           \<lparr>min_sz = max (min_sz (sr_tr (track ! nat k))) (min_sz c),
                            nat_sz = max (nat_sz (sr_tr (track ! nat k))) (nat_sz c)\<rparr>\<rparr>])
               else Inl OutOfRange)
      else Inr track)"

text \<open>The first loop of \<^verbatim>\<open>Grid::compute_track_sizereqs\<close>: \<^verbatim>\<open>t.sr = {0, 0}\<close>.\<close>

definition reset_track_sr :: "track_info list \<Rightarrow> track_info list" where
  "reset_track_sr track = map (\<lambda>t. t\<lparr>sr_tr := \<lparr>min_sz = 0, nat_sz = 0\<rparr>\<rparr>) track"

text \<open>
  \<^verbatim>\<open>vector::resize\<close>: shorter, or longer with new tracks. What a new track holds is in the
  declaration of \<^verbatim>\<open>track_info\<close>, so it is a parameter.
\<close>

definition resize_tracks :: "track_info \<Rightarrow> nat \<Rightarrow> track_info list \<Rightarrow> track_info list" where
  "resize_tracks new_track n tracks = take n tracks @ replicate (n - length tracks) new_track"

text \<open>The row and column counts of \<^verbatim>\<open>Grid::init_track_info\<close>.\<close>

fun count_tracks :: "child_info list \<Rightarrow> int \<times> int" where
  "count_tracks [] = (0, 0)"
| "count_tracks (info # infos) =
     (let (n_rows, n_cols) = count_tracks infos
      in (max n_rows (snd (pos_ci info) + snd (span_ci info)),
          max n_cols (fst (pos_ci info) + fst (span_ci info))))"

subsection \<open>Widgets\<close>

text \<open>
  Modelled from the spec: the members of \<^verbatim>\<open>Widget\<close> are declared in \<^verbatim>\<open>ui.h\<close>; their
  names are the ones \<^verbatim>\<open>ui.cc\<close> uses. \<open>wprops\<close> is what the callers set, \<open>wstate\<close> is what
  a layout pass writes. \<^verbatim>\<open>margin\<close> is indexed 0 to 3: top, right, bottom, left.
  \<^verbatim>\<open>cached_sr_valid\<close> and \<^verbatim>\<open>cached_sr\<close> are arrays indexed by the direction. The last
  three fields of \<open>wstate\<close> are the members of \<^verbatim>\<open>Grid\<close>.
\<close>

record wprops =
  margin :: i4
  flex_grow :: int
  expand_h :: bool
  expand_v :: bool
  shrink_h :: bool
  shrink_v :: bool
  align_self :: Align

record wstate =
  cached_sr_valid :: "Direction \<Rightarrow> bool"
  cached_sr :: "Direction \<Rightarrow> SizeReq"
  cached_sr_pw :: int
  m_region :: i4
  m_track_info_dirty :: bool
  m_row_info :: "track_info list"
  m_col_info :: "track_info list"

type_synonym store = "nat \<Rightarrow> wstate"

text \<open>
  A widget: its address, its properties and its kind. A leaf stands for the base
  \<^verbatim>\<open>Widget\<close>, \<^verbatim>\<open>Text\<close> and \<^verbatim>\<open>Image\<close>: its measurement hook depends on fonts, tiles and
  text wrapping that are outside \<^verbatim>\<open>ui.cc\<close>, so it is a function of the direction and
  the prospective width. A box has \<^verbatim>\<open>horz\<close>, \<^verbatim>\<open>align_items\<close>, \<^verbatim>\<open>justify_items\<close> and its
  children; a grid has the track that \<^verbatim>\<open>resize\<close> appends and its children, each with
  its \<^verbatim>\<open>child_info\<close> (\<^verbatim>\<open>m_children\<close> and \<^verbatim>\<open>m_child_info\<close> grow together in
  \<^verbatim>\<open>Grid::add_child\<close>).
\<close>

datatype widget = Widget (wid: nat) (props: wprops) (kind: wkind)
and wkind =
    Leaf "Direction \<Rightarrow> int \<Rightarrow> SizeReq"
  | Box bool Align Justify "widget list"
  | Stack "widget list"
  | Grid track_info "(widget \<times> child_info) list"

definition ui_expand_sz :: int where
  "ui_expand_sz = 0xffffff"

text \<open>
  The test at the head of \<^verbatim>\<open>Widget::get_preferred_size\<close>:
  \<^verbatim>\<open>cached_sr_valid[dim] && (!dim || cached_sr_pw == prosp_width)\<close>.
\<close>

definition cache_hit :: "Direction \<Rightarrow> int \<Rightarrow> wstate \<Rightarrow> bool" where
  "cache_hit dir prosp_width ws =
     (cached_sr_valid ws dir \<and> (dir = HORZ \<or> cached_sr_pw ws = prosp_width))"

text \<open>
  \<^verbatim>\<open>prosp_width = dim ? prosp_width - margin[1] - margin[3] : prosp_width\<close>: the variable
  is overwritten, and the overwritten value is the one stored as the cache key below.
\<close>

definition inner_width :: "wprops \<Rightarrow> Direction \<Rightarrow> int \<Rightarrow> int" where
  "inner_width p dir prosp_width =
     (if dir = VERT then prosp_width - i4_get (margin p) 1 - i4_get (margin p) 3
      else prosp_width)"

text \<open>
  What \<^verbatim>\<open>Widget::get_preferred_size\<close> does with the SizeReq of the hook: the assertion,
  the margins \<^verbatim>\<open>margin[1-dim] + margin[3-dim]\<close>, expand and shrink, the ceiling.
\<close>

definition finish_size_req :: "wprops \<Rightarrow> Direction \<Rightarrow> SizeReq \<Rightarrow> error + SizeReq" where
  "finish_size_req p dir ret =
     (if \<not> min_sz ret \<le> nat_sz ret then Inl AssertionFailed
      else let m = (if dir = VERT then i4_get (margin p) 0 + i4_get (margin p) 2
                    else i4_get (margin p) 1 + i4_get (margin p) 3);
               ret1 = \<lparr>min_sz = min_sz ret + m, nat_sz = nat_sz ret + m\<rparr>;
               expand = (if dir = VERT then expand_v p else expand_h p);
               shrink = (if dir = VERT then shrink_v p else shrink_h p)
           in if expand \<and> shrink then Inl AssertionFailed
              else let ret2 = (if expand then ret1\<lparr>nat_sz := ui_expand_sz\<rparr>
                               else if shrink then ret1\<lparr>nat_sz := min_sz ret1\<rparr>
                               else ret1)
                   in Inr (ret2\<lparr>nat_sz := min (nat_sz ret2) ui_expand_sz\<rparr>))"

text \<open>The three assignments that fill the cache.\<close>

definition cache_store :: "Direction \<Rightarrow> int \<Rightarrow> SizeReq \<Rightarrow> wstate \<Rightarrow> wstate" where
  "cache_store dir prosp_width ret ws =
     (let ws1 = ws\<lparr>cached_sr_valid := (cached_sr_valid ws)(dir := True),
                   cached_sr := (cached_sr ws)(dir := ret)\<rparr>
      in if dir = VERT then ws1\<lparr>cached_sr_pw := prosp_width\<rparr> else ws1)"

text \<open>The track array \<^verbatim>\<open>dim ? m_row_info : m_col_info\<close> of a grid, read and written.\<close>

definition tracks_of :: "Direction \<Rightarrow> wstate \<Rightarrow> track_info list" where
  "tracks_of dir ws = (if dir = VERT then m_row_info ws else m_col_info ws)"

definition set_tracks :: "Direction \<Rightarrow> track_info list \<Rightarrow> wstate \<Rightarrow> wstate" where
  "set_tracks dir tr ws = (if dir = VERT then ws\<lparr>m_row_info := tr\<rparr> else ws\<lparr>m_col_info := tr\<rparr>)"

text \<open>\<^verbatim>\<open>Grid::init_track_info\<close>.\<close>

definition init_track_info :: "track_info \<Rightarrow> child_info list \<Rightarrow> wstate \<Rightarrow> wstate" where
  "init_track_info new_track infos ws =
     (if \<not> m_track_info_dirty ws then ws
      else let (n_rows, n_cols) = count_tracks infos
           in ws\<lparr>m_track_info_dirty := False,
                 m_row_info := resize_tracks new_track (nat n_rows) (m_row_info ws),
                 m_col_info := resize_tracks new_track (nat n_cols) (m_col_info ws)\<rparr>)"

text \<open>The aggregation at the end of \<^verbatim>\<open>Box::_get_preferred_size\<close>.\<close>

fun box_aggregate :: "bool \<Rightarrow> SizeReq \<Rightarrow> SizeReq list \<Rightarrow> SizeReq" where
  "box_aggregate main_axis r [] = r"
| "box_aggregate main_axis r (c # cs) =
     box_aggregate main_axis
       \<lparr>min_sz = (if main_axis then min_sz r + min_sz c else max (min_sz r) (min_sz c)),
        nat_sz = (if main_axis then nat_sz r + nat_sz c else max (nat_sz r) (nat_sz c))\<rparr> cs"

subsection \<open>Measuring: \<^verbatim>\<open>get_preferred_size\<close>\<close>

text \<open>
  \<open>get_preferred_size\<close> is \<^verbatim>\<open>Widget::get_preferred_size\<close>; \<open>v_get_preferred_size\<close> is the
  virtual \<^verbatim>\<open>_get_preferred_size\<close> of the kind (the argument \<open>i\<close> is the address of the
  widget). \<open>preferred_widths\<close> and \<open>preferred_heights\<close> are the loops of \<^verbatim>\<open>Box\<close> that
  fill \<^verbatim>\<open>sr\<close>; \<open>stack_preferred_size\<close> is the loop of \<^verbatim>\<open>Stack::_get_preferred_size\<close>;
  \<open>compute_track_sizereqs_loop\<close> is the child loop of \<^verbatim>\<open>Grid::compute_track_sizereqs\<close>.
\<close>

fun get_preferred_size :: "Direction \<Rightarrow> int \<Rightarrow> widget \<Rightarrow> store \<Rightarrow> error + (SizeReq \<times> store)"
and v_get_preferred_size ::
  "Direction \<Rightarrow> int \<Rightarrow> nat \<Rightarrow> wkind \<Rightarrow> store \<Rightarrow> error + (SizeReq \<times> store)"
and preferred_widths :: "widget list \<Rightarrow> store \<Rightarrow> error + (SizeReq list \<times> store)"
and preferred_heights :: "widget list \<Rightarrow> int list \<Rightarrow> store \<Rightarrow> error + (SizeReq list \<times> store)"
and stack_preferred_size ::
  "Direction \<Rightarrow> int \<Rightarrow> widget list \<Rightarrow> SizeReq \<Rightarrow> store \<Rightarrow> error + (SizeReq \<times> store)"
and compute_track_sizereqs_loop ::
  "Direction \<Rightarrow> nat \<Rightarrow> (widget \<times> child_info) list \<Rightarrow> store \<Rightarrow> error + store"
where
  "get_preferred_size dir prosp_width (Widget i p k) st =
     (if (dir = HORZ) \<noteq> (prosp_width = -1) then Inl AssertionFailed
      else if cache_hit dir prosp_width (st i) then Inr (cached_sr (st i) dir, st)
      else (case v_get_preferred_size dir (inner_width p dir prosp_width) i k st of
              Inl e \<Rightarrow> Inl e
            | Inr (ret, st1) \<Rightarrow>
                (case finish_size_req p dir ret of
                   Inl e \<Rightarrow> Inl e
                 | Inr ret' \<Rightarrow>
                     Inr (ret', st1(i := cache_store dir (inner_width p dir prosp_width) ret'
                                           (st1 i))))))"
| "v_get_preferred_size dir prosp_width i (Leaf hook) st = Inr (hook dir prosp_width, st)"
| "v_get_preferred_size dir prosp_width i (Box horz align_items justify_items children) st =
     (case preferred_widths children st of
        Inl e \<Rightarrow> Inl e
      | Inr (sr, st1) \<Rightarrow>
          (if dir = VERT then
             (case (if horz then layout_main_axis (map (\<lambda>c. flex_grow (props c)) children) sr
                                   prosp_width
                    else Inr (layout_cross_axis align_items
                                (map (\<lambda>c. align_self (props c)) children) sr prosp_width)) of
                Inl e \<Rightarrow> Inl e
              | Inr cw \<Rightarrow>
                  (case preferred_heights children cw st1 of
                     Inl e \<Rightarrow> Inl e
                   | Inr (sr', st2) \<Rightarrow>
                       Inr (box_aggregate (\<not> horz) \<lparr>min_sz = 0, nat_sz = 0\<rparr> sr', st2)))
           else Inr (box_aggregate horz \<lparr>min_sz = 0, nat_sz = 0\<rparr> sr, st1)))"
| "v_get_preferred_size dir prosp_width i (Stack children) st =
     stack_preferred_size dir prosp_width children \<lparr>min_sz = 0, nat_sz = 0\<rparr> st"
| "v_get_preferred_size dir prosp_width i (Grid new_track children) st =
     (let st0 = st(i := init_track_info new_track (map snd children) (st i))
      in (case compute_track_sizereqs_loop HORZ i children
                 (st0(i := set_tracks HORZ (reset_track_sr (tracks_of HORZ (st0 i))) (st0 i))) of
            Inl e \<Rightarrow> Inl e
          | Inr st1 \<Rightarrow>
              (if dir = HORZ then Inr (track_total (m_col_info (st1 i)), st1)
               else (case layout_track (track_total (m_col_info (st1 i))) prosp_width
                            (m_col_info (st1 i)) of
                       Inl e \<Rightarrow> Inl e
                     | Inr cols \<Rightarrow>
                         (let st2 = st1(i := (st1 i)\<lparr>m_col_info := set_track_offsets cols\<rparr>)
                          in (case compute_track_sizereqs_loop VERT i children
                                     (st2(i := set_tracks VERT
                                                 (reset_track_sr (tracks_of VERT (st2 i))) (st2 i))) of
                                Inl e \<Rightarrow> Inl e
                              | Inr st3 \<Rightarrow> Inr (track_total (m_row_info (st3 i)), st3)))))))"
| "preferred_widths [] st = Inr ([], st)"
| "preferred_widths (c # cs) st =
     (case get_preferred_size HORZ (-1) c st of
        Inl e \<Rightarrow> Inl e
      | Inr (r, st1) \<Rightarrow>
          (case preferred_widths cs st1 of
             Inl e \<Rightarrow> Inl e
           | Inr (rs, st2) \<Rightarrow> Inr (r # rs, st2)))"
| "preferred_heights [] cw st = Inr ([], st)"
| "preferred_heights (c # cs) [] st = Inl OutOfRange"
| "preferred_heights (c # cs) (w # cw) st =
     (case get_preferred_size VERT w c st of
        Inl e \<Rightarrow> Inl e
      | Inr (r, st1) \<Rightarrow>
          (case preferred_heights cs cw st1 of
             Inl e \<Rightarrow> Inl e
           | Inr (rs, st2) \<Rightarrow> Inr (r # rs, st2)))"
| "stack_preferred_size dir prosp_width [] r st = Inr (r, st)"
| "stack_preferred_size dir prosp_width (child # children) r st =
     (case get_preferred_size dir prosp_width child st of
        Inl e \<Rightarrow> Inl e
      | Inr (c, st1) \<Rightarrow>
          stack_preferred_size dir prosp_width children
            \<lparr>min_sz = max (min_sz r) (min_sz c), nat_sz = max (nat_sz r) (nat_sz c)\<rparr> st1)"
| "compute_track_sizereqs_loop dir i [] st = Inr st"
| "compute_track_sizereqs_loop dir i ((child, info) # children) st =
     (case (if dir = VERT
            then (case get_tracks_region (m_col_info (st i)) (m_row_info (st i))
                         (fst (pos_ci info)) (snd (pos_ci info))
                         (fst (span_ci info)) (snd (span_ci info)) of
                    Inl e \<Rightarrow> Inl e
                  | Inr r \<Rightarrow> Inr (i4_get r 2))
            else Inr (-1)) of
        Inl e \<Rightarrow> Inl e
      | Inr prosp_width \<Rightarrow>
          (case get_preferred_size dir prosp_width child st of
             Inl e \<Rightarrow> Inl e
           | Inr (c, st1) \<Rightarrow>
               (case merge_child_sr dir info c (tracks_of dir (st1 i)) of
                  Inl e \<Rightarrow> Inl e
                | Inr tr \<Rightarrow>
                    compute_track_sizereqs_loop dir i children
                      (st1(i := set_tracks dir tr (st1 i))))))"

subsection \<open>Placing: \<^verbatim>\<open>allocate_region\<close>\<close>

text \<open>
  The cross-axis offset chosen by the \<^verbatim>\<open>switch\<close> of \<^verbatim>\<open>Box::_allocate_region\<close>; its
  \<^verbatim>\<open>default\<close> branch is \<^verbatim>\<open>ASSERT(0)\<close>.
\<close>

definition cross_offset :: "Align \<Rightarrow> int \<Rightarrow> error + int" where
  "cross_offset al extra_cross_space =
     (case al of
        START \<Rightarrow> Inr 0
      | CENTER \<Rightarrow> Inr (cdiv extra_cross_space 2)
      | END \<Rightarrow> Inr extra_cross_space
      | STRETCH \<Rightarrow> Inr 0
      | INHERIT \<Rightarrow> Inl AssertionFailed)"

text \<open>
  The rectangle \<^verbatim>\<open>cr\<close> that the child loop of \<^verbatim>\<open>Box::_allocate_region\<close> hands to child
  \<open>i\<close>, from the \<^verbatim>\<open>cr\<close> the previous round left, the box's own region \<open>reg\<close> and the
  sizes \<^verbatim>\<open>cw[i]\<close>, \<^verbatim>\<open>ch[i]\<close>.
\<close>

definition box_child_region ::
  "bool \<Rightarrow> Align \<Rightarrow> i4 \<Rightarrow> int \<Rightarrow> int \<Rightarrow> i4 \<Rightarrow> Align \<Rightarrow> int \<Rightarrow> int \<Rightarrow> error + i4" where
  "box_child_region horz align_items reg ho vo cr a w h =
     (let extra_cross_space = (if horz then i4_get reg 3 - h else i4_get reg 2 - w);
          xp = (if horz then 1 else 0 :: nat);
          xs = xp + 2;
          al = child_align a align_items
      in (case cross_offset al extra_cross_space of
            Inl e \<Rightarrow> Inl e
          | Inr xo \<Rightarrow>
              (let cr1 = i4_set cr xp ((if horz then vo else ho) + xo);
                   cr2 = i4_set cr1 2 w;
                   cr3 = i4_set cr2 3 h
               in Inr (if al = STRETCH then i4_set cr3 xs (if horz then h else w) else cr3))))"

text \<open>
  \<open>allocate_region\<close> is \<^verbatim>\<open>Widget::allocate_region\<close>; \<open>v_allocate_region\<close> is the virtual
  \<^verbatim>\<open>_allocate_region\<close> of the kind. \<open>box_place\<close>, \<open>stack_place\<close> and \<open>grid_place\<close> are
  the child loops of the three containers.
\<close>

fun allocate_region :: "i4 \<Rightarrow> widget \<Rightarrow> store \<Rightarrow> error + store"
and v_allocate_region :: "nat \<Rightarrow> wkind \<Rightarrow> store \<Rightarrow> error + store"
and box_place ::
  "bool \<Rightarrow> Align \<Rightarrow> nat \<Rightarrow> int \<Rightarrow> int \<Rightarrow> i4 \<Rightarrow> widget list \<Rightarrow> int list \<Rightarrow> int list \<Rightarrow> store
   \<Rightarrow> error + store"
and stack_place :: "nat \<Rightarrow> widget list \<Rightarrow> store \<Rightarrow> error + store"
and grid_place :: "nat \<Rightarrow> (widget \<times> child_info) list \<Rightarrow> store \<Rightarrow> error + store"
where
  "allocate_region region (Widget i p k) st =
     (let reg = (i4_get region 0 + i4_get (margin p) 3,
                 i4_get region 1 + i4_get (margin p) 0,
                 i4_get region 2 - i4_get (margin p) 3 - i4_get (margin p) 1,
                 i4_get region 3 - i4_get (margin p) 0 - i4_get (margin p) 2);
          st1 = st(i := (st i)\<lparr>m_region := reg\<rparr>)
      in if \<not> 0 \<le> i4_get reg 2 then Inl AssertionFailed
         else if \<not> 0 \<le> i4_get reg 3 then Inl AssertionFailed
         else v_allocate_region i k st1)"
| "v_allocate_region i (Leaf hook) st = Inr st"
| "v_allocate_region i (Box horz align_items justify_items children) st =
     (case preferred_widths children st of
        Inl e \<Rightarrow> Inl e
      | Inr (sr, st1) \<Rightarrow>
          (case (if horz then layout_main_axis (map (\<lambda>c. flex_grow (props c)) children) sr
                                (i4_get (m_region (st1 i)) 2)
                 else Inr (layout_cross_axis align_items
                             (map (\<lambda>c. align_self (props c)) children) sr
                             (i4_get (m_region (st1 i)) 2))) of
             Inl e \<Rightarrow> Inl e
           | Inr cw \<Rightarrow>
               (case preferred_heights children cw st1 of
                  Inl e \<Rightarrow> Inl e
                | Inr (sr', st2) \<Rightarrow>
                    (case (if horz then Inr (layout_cross_axis align_items
                                               (map (\<lambda>c. align_self (props c)) children) sr'
                                               (i4_get (m_region (st2 i)) 3))
                           else layout_main_axis (map (\<lambda>c. flex_grow (props c)) children) sr'
                                  (i4_get (m_region (st2 i)) 3)) of
                       Inl e \<Rightarrow> Inl e
                     | Inr ch \<Rightarrow>
                         (let extra_main_space =
                                i4_get (m_region (st2 i)) (if horz then 2 else 3)
                                - sum_list (if horz then cw else ch)
                          in if \<not> 0 \<le> extra_main_space then Inl AssertionFailed
                             else let mo = cdiv (extra_main_space * justify_pos justify_items) 2;
                                      ho = i4_get (m_region (st2 i)) 0 + (if horz then mo else 0);
                                      vo = i4_get (m_region (st2 i)) 1 + (if \<not> horz then mo else 0)
                                  in box_place horz align_items i ho vo (ho, vo, 0, 0)
                                       children cw ch st2)))))"
| "v_allocate_region i (Stack children) st = stack_place i children st"
| "v_allocate_region i (Grid new_track children) st =
     (case v_get_preferred_size VERT (i4_get (m_region (st i)) 2) i (Grid new_track children) st of
        Inl e \<Rightarrow> Inl e
      | Inr (h_sr, st1) \<Rightarrow>
          (case layout_track h_sr (i4_get (m_region (st1 i)) 3) (m_row_info (st1 i)) of
             Inl e \<Rightarrow> Inl e
           | Inr rows \<Rightarrow>
               grid_place i children (st1(i := (st1 i)\<lparr>m_row_info := set_track_offsets rows\<rparr>))))"
| "box_place horz align_items i ho vo cr [] cw ch st = Inr st"
| "box_place horz align_items i ho vo cr (c # cs) [] ch st = Inl OutOfRange"
| "box_place horz align_items i ho vo cr (c # cs) (w # cw) [] st = Inl OutOfRange"
| "box_place horz align_items i ho vo cr (c # cs) (w # cw) (h # ch) st =
     (case box_child_region horz align_items (m_region (st i)) ho vo cr
             (align_self (props c)) w h of
        Inl e \<Rightarrow> Inl e
      | Inr cr' \<Rightarrow>
          (case allocate_region cr' c st of
             Inl e \<Rightarrow> Inl e
           | Inr st1 \<Rightarrow>
               box_place horz align_items i ho vo
                 (i4_set cr' (if horz then 0 else 1)
                    (i4_get cr' (if horz then 0 else 1) + i4_get cr' (if horz then 2 else 3)))
                 cs cw ch st1))"
| "stack_place i [] st = Inr st"
| "stack_place i (child # children) st =
     (case get_preferred_size HORZ (-1) child st of
        Inl e \<Rightarrow> Inl e
      | Inr (pw, st1) \<Rightarrow>
          (let cr = i4_set (m_region (st i)) 2
                      (min (max (min_sz pw) (i4_get (m_region (st1 i)) 2)) (nat_sz pw))
           in (case get_preferred_size VERT (i4_get cr 2) child st1 of
                 Inl e \<Rightarrow> Inl e
               | Inr (ph, st2) \<Rightarrow>
                   (case allocate_region
                           (i4_set cr 3
                              (min (max (min_sz ph) (i4_get (m_region (st2 i)) 3)) (nat_sz ph)))
                           child st2 of
                      Inl e \<Rightarrow> Inl e
                    | Inr st3 \<Rightarrow> stack_place i children st3))))"
| "grid_place i [] st = Inr st"
| "grid_place i ((child, info) # children) st =
     (case get_tracks_region (m_col_info (st i)) (m_row_info (st i))
             (fst (pos_ci info)) (snd (pos_ci info))
             (fst (span_ci info)) (snd (span_ci info)) of
        Inl e \<Rightarrow> Inl e
      | Inr cell_reg \<Rightarrow>
          (case allocate_region
                  (i4_get cell_reg 0 + i4_get (m_region (st i)) 0,
                   i4_get cell_reg 1 + i4_get (m_region (st i)) 1,
                   i4_get cell_reg 2, i4_get cell_reg 3)
                  child st of
             Inl e \<Rightarrow> Inl e
           | Inr st1 \<Rightarrow> grid_place i children st1))"

subsection \<open>The root: \<^verbatim>\<open>UIRoot\<close>\<close>

text \<open>
  \<^verbatim>\<open>m_root\<close> is the top-level \<^verbatim>\<open>Stack\<close>, \<^verbatim>\<open>m_region_ui\<close> is the root's own \<^verbatim>\<open>m_region\<close>,
  \<open>widgets\<close> is the state of all widget objects.
\<close>

record UIRoot =
  m_w :: int
  m_h :: int
  m_region_ui :: i4
  m_root :: widget
  m_dirty :: bool
  widgets :: store

text \<open>\<^verbatim>\<open>UIRoot::resize\<close>.\<close>

definition resize :: "int \<Rightarrow> int \<Rightarrow> UIRoot \<Rightarrow> UIRoot" where
  "resize w h r =
     (if w = m_w r \<and> h = m_h r then r
      else r\<lparr>m_w := w, m_h := h, m_dirty := True\<rparr>)"

text \<open>
  \<^verbatim>\<open>UIRoot::layout\<close>. \<open>tile_local\<close> is the build flag \<^verbatim>\<open>USE_TILE_LOCAL\<close>, which only
  decides what is stored in the root's own \<^verbatim>\<open>m_region\<close>.
\<close>

definition layout :: "bool \<Rightarrow> UIRoot \<Rightarrow> error + UIRoot" where
  "layout tile_local r =
     (if \<not> m_dirty r then Inr r
      else (case get_preferred_size HORZ (-1) (m_root r) (widgets r) of
              Inl e \<Rightarrow> Inl e
            | Inr (sr_horz, st1) \<Rightarrow>
                (let width = max (min_sz sr_horz) (m_w r)
                 in (case get_preferred_size VERT width (m_root r) st1 of
                       Inl e \<Rightarrow> Inl e
                     | Inr (sr_vert, st2) \<Rightarrow>
                         (let height = max (min_sz sr_vert) (m_h r)
                          in (case allocate_region (0, 0, width, height) (m_root r) st2 of
                                Inl e \<Rightarrow> Inl e
                              | Inr st3 \<Rightarrow>
                                  Inr (r\<lparr>m_dirty := False,
                                         m_region_ui := (if tile_local then (0, 0, width, height)
                                                         else (0, 0, m_w r, m_h r)),
                                         widgets := st3\<rparr>)))))))"

subsection \<open>States and widgets for the examples\<close>

text \<open>
  Modelled from the spec: the initial values of the members are in \<^verbatim>\<open>ui.h\<close>. A new
  widget has nothing cached and no region yet; a new grid has no tracks and its track
  information is marked dirty by \<^verbatim>\<open>Grid::add_child\<close>. \<open>plain\<close> is a widget without
  margins and flags, \<open>new_track1\<close> a new track of weight 1.
\<close>

definition fresh :: wstate where
  "fresh = \<lparr>cached_sr_valid = (\<lambda>d. False), cached_sr = (\<lambda>d. \<lparr>min_sz = 0, nat_sz = 0\<rparr>),
            cached_sr_pw = 0, m_region = (0, 0, 0, 0), m_track_info_dirty = True,
            m_row_info = [], m_col_info = []\<rparr>"

definition plain :: wprops where
  "plain = \<lparr>margin = (0, 0, 0, 0), flex_grow = 1, expand_h = False, expand_v = False,
            shrink_h = False, shrink_v = False, align_self = INHERIT\<rparr>"

definition new_track1 :: track_info where
  "new_track1 = \<lparr>sr_tr = \<lparr>min_sz = 0, nat_sz = 0\<rparr>, size_tr = 0, offset_tr = 0, flex_grow_tr = 1\<rparr>"

text \<open>One call after another: \<open>after r f\<close> runs \<open>f\<close> in the state that \<open>r\<close> left.\<close>

definition after :: "error + ('a \<times> store) \<Rightarrow> (store \<Rightarrow> error + 'b) \<Rightarrow> error + 'b" where
  "after r f = (case r of Inl e \<Rightarrow> Inl e | Inr (x, st) \<Rightarrow> f st)"

subsection \<open>Invariants\<close>



text \<open>
  A SizeReq as \<^verbatim>\<open>Widget::get_preferred_size\<close> produces it: nat is at most the ceiling, and
  min is at most nat unless min itself is above the ceiling. \<open>cache_good\<close>: every valid
  cache entry is such a SizeReq.
\<close>

definition sr_good :: "SizeReq \<Rightarrow> bool" where
  "sr_good r = (nat_sz r \<le> ui_expand_sz \<and> (min_sz r \<le> nat_sz r \<or> ui_expand_sz < min_sz r))"

definition cache_good :: "store \<Rightarrow> bool" where
  "cache_good st = (\<forall>i dir. cached_sr_valid (st i) dir \<longrightarrow> sr_good (cached_sr (st i) dir))"



definition other :: "Direction \<Rightarrow> Direction" where
  "other dir = (if dir = VERT then HORZ else VERT)"

subsection \<open>Lemmas about \<^verbatim>\<open>Box::layout_main_axis\<close>\<close>

















subsection \<open>Claims about \<^verbatim>\<open>Box\<close>: C3, C9, C4\<close>






text \<open>
  Claim C4 fails on the code. A child with \<^verbatim>\<open>align_self = CENTER\<close> in a box with
  \<^verbatim>\<open>align_items = STRETCH\<close>: \<^verbatim>\<open>Box::_allocate_region\<close> resolves its alignment to
  \<^verbatim>\<open>CENTER\<close>, yet \<^verbatim>\<open>layout_cross_axis\<close> gives it the whole cross budget 100 instead of
  \<open>clamp(10, 100, 20) = 20\<close>.
\<close>

theorem layout_cross_axis_stretch_bug:
  "layout_cross_axis STRETCH [CENTER] [\<lparr>min_sz = 10, nat_sz = 20\<rparr>] 100 = [100]
   \<and> child_align CENTER STRETCH = CENTER
   \<and> min (max 10 100) 20 = (20::int)"
  by (simp add: child_align_def)

subsection \<open>Lemmas and claims about \<^verbatim>\<open>Grid\<close> tracks: C6, C10, C5\<close>





lemma grid_span_example:
  "map_sum id (\<lambda>(sr, st). map sr_tr (m_col_info (st 0)))
     (v_get_preferred_size HORZ (-1) 0
        (Grid new_track1
           [(Widget 1 plain (Leaf (\<lambda>d w. \<lparr>min_sz = 50, nat_sz = 60\<rparr>)), \<lparr>pos_ci = (1, 0), span_ci = (2, 1)\<rparr>),
            (Widget 2 plain (Leaf (\<lambda>d w. \<lparr>min_sz = 7, nat_sz = 9\<rparr>)), \<lparr>pos_ci = (1, 0), span_ci = (1, 1)\<rparr>)])
        (\<lambda>i. fresh))
   = Inr [\<lparr>min_sz = 0, nat_sz = 0\<rparr>, \<lparr>min_sz = 7, nat_sz = 9\<rparr>, \<lparr>min_sz = 0, nat_sz = 0\<rparr>]"
  by (simp add: fresh_def plain_def new_track1_def init_track_info_def resize_tracks_def
      reset_track_sr_def tracks_of_def set_tracks_def cache_hit_def inner_width_def
      finish_size_req_def cache_store_def merge_child_sr_def track_total_def ui_expand_sz_def Let_def
      numeral_3_eq_3)





text \<open>
  Claim C5, as amended. A child is merged into the per-track aggregation only when it
  spans exactly one column and exactly one row: a child whose span is not (1, 1)
  leaves the tracks of either axis unchanged, and a child with span (1, 1) raises the
  min and the nat of its own track to the maximum and leaves the other tracks alone. A
  child at cell (1, 0) with span (2, 1) does not influence column 1, which holds what
  the single-cell child in column 1 reported.
\<close>

theorem merge_only_single_cell:
  "(span_ci info \<noteq> (1, 1) \<longrightarrow> merge_child_sr dir info c track = Inr track)
   \<and> (span_ci info = (1, 1) \<and> 0 \<le> k \<and> k < int (length track)
        \<and> k = (if dir = VERT then snd (pos_ci info) else fst (pos_ci info)) \<longrightarrow>
        (\<exists>track'. merge_child_sr dir info c track = Inr track' \<and> length track' = length track
           \<and> sr_tr (track' ! nat k)
               = \<lparr>min_sz = max (min_sz (sr_tr (track ! nat k))) (min_sz c),
                  nat_sz = max (nat_sz (sr_tr (track ! nat k))) (nat_sz c)\<rparr>
           \<and> (\<forall>j<length track. j \<noteq> nat k \<longrightarrow> track' ! j = track ! j)))
   \<and> map_sum id (\<lambda>(sr, st). map sr_tr (m_col_info (st 0)))
       (v_get_preferred_size HORZ (-1) 0
          (Grid new_track1
             [(Widget 1 plain (Leaf (\<lambda>d w. \<lparr>min_sz = 50, nat_sz = 60\<rparr>)),
               \<lparr>pos_ci = (1, 0), span_ci = (2, 1)\<rparr>),
              (Widget 2 plain (Leaf (\<lambda>d w. \<lparr>min_sz = 7, nat_sz = 9\<rparr>)),
               \<lparr>pos_ci = (1, 0), span_ci = (1, 1)\<rparr>)])
          (\<lambda>i. fresh))
     = Inr [\<lparr>min_sz = 0, nat_sz = 0\<rparr>, \<lparr>min_sz = 7, nat_sz = 9\<rparr>, \<lparr>min_sz = 0, nat_sz = 0\<rparr>]"
proof -
  have a: "merge_child_sr dir info c track = Inr track" if "span_ci info \<noteq> (1, 1)"
    using that by (cases "span_ci info") (auto simp: merge_child_sr_def)
  have b: "\<exists>track'. merge_child_sr dir info c track = Inr track' \<and> length track' = length track
           \<and> sr_tr (track' ! nat k)
               = \<lparr>min_sz = max (min_sz (sr_tr (track ! nat k))) (min_sz c),
                  nat_sz = max (nat_sz (sr_tr (track ! nat k))) (nat_sz c)\<rparr>
           \<and> (\<forall>j<length track. j \<noteq> nat k \<longrightarrow> track' ! j = track ! j)"
    if "span_ci info = (1, 1)" "0 \<le> k" "k < int (length track)"
      "k = (if dir = VERT then snd (pos_ci info) else fst (pos_ci info))"
  proof -
    have "nat k < length track" using that(2,3) by linarith
    then show ?thesis using that by (simp add: merge_child_sr_def Let_def)
  qed
  show ?thesis using a b grid_span_example by blast
qed

text \<open>One track, merged with a single-cell child and with a child spanning two columns.\<close>

theorem merge_only_single_cell_witness:
  "merge_child_sr HORZ \<lparr>pos_ci = (0, 0), span_ci = (1, 1)\<rparr> \<lparr>min_sz = 7, nat_sz = 9\<rparr>
     [\<lparr>sr_tr = \<lparr>min_sz = 3, nat_sz = 12\<rparr>, size_tr = 0, offset_tr = 0, flex_grow_tr = 1\<rparr>]
   = Inr [\<lparr>sr_tr = \<lparr>min_sz = 7, nat_sz = 12\<rparr>, size_tr = 0, offset_tr = 0, flex_grow_tr = 1\<rparr>]
   \<and> merge_child_sr HORZ \<lparr>pos_ci = (0, 0), span_ci = (2, 1)\<rparr> \<lparr>min_sz = 7, nat_sz = 9\<rparr>
     [\<lparr>sr_tr = \<lparr>min_sz = 3, nat_sz = 12\<rparr>, size_tr = 0, offset_tr = 0, flex_grow_tr = 1\<rparr>]
   = Inr [\<lparr>sr_tr = \<lparr>min_sz = 3, nat_sz = 12\<rparr>, size_tr = 0, offset_tr = 0, flex_grow_tr = 1\<rparr>]
   \<and> (\<exists>track'. merge_child_sr HORZ \<lparr>pos_ci = (0, 0), span_ci = (1, 1)\<rparr> \<lparr>min_sz = 7, nat_sz = 9\<rparr>
           [\<lparr>sr_tr = \<lparr>min_sz = 3, nat_sz = 12\<rparr>, size_tr = 0, offset_tr = 0, flex_grow_tr = 1\<rparr>]
         = Inr track' \<and> sr_tr (track' ! 0) = \<lparr>min_sz = 7, nat_sz = 12\<rparr>)"
proof -
  let ?t = "[\<lparr>sr_tr = \<lparr>min_sz = 3, nat_sz = 12\<rparr>, size_tr = 0, offset_tr = 0, flex_grow_tr = 1\<rparr>]"
  let ?c = "\<lparr>min_sz = 7, nat_sz = (9::int)\<rparr>"
  have h: "span_ci \<lparr>pos_ci = (0, 0), span_ci = (2, 1)\<rparr> \<noteq> (1, 1)" by simp
  note multi = merge_only_single_cell[of "\<lparr>pos_ci = (0, 0), span_ci = (2, 1)\<rparr>" HORZ ?c ?t 0,
      THEN conjunct1, rule_format, OF h]
  have g: "span_ci \<lparr>pos_ci = (0, 0), span_ci = (1, 1)\<rparr> = (1, 1) \<and> (0::int) \<le> 0
        \<and> 0 < int (length ?t)
        \<and> 0 = (if HORZ = VERT then snd (pos_ci \<lparr>pos_ci = (0, 0), span_ci = (1, 1)\<rparr>)
               else fst (pos_ci \<lparr>pos_ci = (0, 0), span_ci = (1, 1)\<rparr>))"
    by simp
  note single = merge_only_single_cell[of "\<lparr>pos_ci = (0, 0), span_ci = (1, 1)\<rparr>" HORZ ?c ?t 0,
      THEN conjunct2, THEN conjunct1, rule_format, OF g]
  from single have s: "\<exists>track'. merge_child_sr HORZ \<lparr>pos_ci = (0, 0), span_ci = (1, 1)\<rparr> ?c ?t
         = Inr track' \<and> sr_tr (track' ! 0) = \<lparr>min_sz = 7, nat_sz = 12\<rparr>"
    by auto
  have e: "merge_child_sr HORZ \<lparr>pos_ci = (0, 0), span_ci = (1, 1)\<rparr> ?c ?t
     = Inr [\<lparr>sr_tr = \<lparr>min_sz = 7, nat_sz = 12\<rparr>, size_tr = 0, offset_tr = 0, flex_grow_tr = 1\<rparr>]"
    by (simp add: merge_child_sr_def)
  from multi s e show ?thesis by simp
qed

text \<open>
  Claim C5 as stated fails: a child at cell (0, 0) with span (1, 2) spans exactly one
  column and reports a width of 7 to 9, but it spans two rows, so it is not merged into
  column 0: after the horizontal aggregation the track still holds (0, 0) and the grid
  reports a width of (0, 0).
\<close>

theorem merge_only_single_cell_counterexample:
  "map_sum id (\<lambda>(sr, st). (sr, map sr_tr (m_col_info (st 0))))
     (v_get_preferred_size HORZ (-1) 0
        (Grid new_track1
           [(Widget 1 plain (Leaf (\<lambda>d w. \<lparr>min_sz = 7, nat_sz = 9\<rparr>)),
             \<lparr>pos_ci = (0, 0), span_ci = (1, 2)\<rparr>)])
        (\<lambda>i. fresh))
   = Inr (\<lparr>min_sz = 0, nat_sz = 0\<rparr>, [\<lparr>min_sz = 0, nat_sz = 0\<rparr>])"
  by (simp add: fresh_def plain_def new_track1_def init_track_info_def resize_tracks_def
      reset_track_sr_def tracks_of_def set_tracks_def cache_hit_def inner_width_def
      finish_size_req_def cache_store_def merge_child_sr_def track_total_def ui_expand_sz_def
      Let_def)

subsection \<open>The cache invariant while measuring\<close>

lemma finish_size_req_good: "finish_size_req p dir ret = Inr r \<Longrightarrow> sr_good r"
  by (auto simp: finish_size_req_def sr_good_def Let_def split: if_splits)

lemma cache_good_same:
  "cache_good st \<Longrightarrow> cached_sr_valid ws = cached_sr_valid (st i)
   \<Longrightarrow> cached_sr ws = cached_sr (st i) \<Longrightarrow> cache_good (st(i := ws))"
  by (auto simp: cache_good_def)

lemma cache_good_store:
  "cache_good st \<Longrightarrow> sr_good r \<Longrightarrow> cache_good (st(i := cache_store dir pw r (st i)))"
  by (auto simp: cache_good_def cache_store_def Let_def)

lemma cache_fields_set_tracks [simp]:
  "cached_sr_valid (set_tracks dir tr ws) = cached_sr_valid ws"
  "cached_sr (set_tracks dir tr ws) = cached_sr ws"
  by (simp_all add: set_tracks_def)

lemma cache_fields_init_track_info [simp]:
  "cached_sr_valid (init_track_info nt infos ws) = cached_sr_valid ws"
  "cached_sr (init_track_info nt infos ws) = cached_sr ws"
  by (simp_all add: init_track_info_def split: prod.splits)

lemma cache_good_set_tracks:
  "cache_good st \<Longrightarrow> cache_good (st(i := set_tracks dir tr (st i)))"
  by (rule cache_good_same) simp_all

lemma cache_good_init:
  "cache_good st \<Longrightarrow> cache_good (st(i := init_track_info nt infos (st i)))"
  by (rule cache_good_same) simp_all

lemma cache_good_cols:
  "cache_good st \<Longrightarrow> cache_good (st(i := (st i)\<lparr>m_col_info := cols\<rparr>))"
  by (rule cache_good_same) simp_all

lemma cache_good_measure:
  shows "\<forall>r st'. get_preferred_size dir pw w st = Inr (r, st') \<longrightarrow> cache_good st
            \<longrightarrow> sr_good r \<and> cache_good st'"
    and "\<forall>r st'. v_get_preferred_size dir2 pw2 i k st2 = Inr (r, st') \<longrightarrow> cache_good st2
            \<longrightarrow> cache_good st'"
    and "\<forall>rs st'. preferred_widths cs3 st3 = Inr (rs, st') \<longrightarrow> cache_good st3 \<longrightarrow> cache_good st'"
    and "\<forall>rs st'. preferred_heights cs4 cw4 st4 = Inr (rs, st') \<longrightarrow> cache_good st4
            \<longrightarrow> cache_good st'"
    and "\<forall>r st'. stack_preferred_size dir5 pw5 cs5 r5 st5 = Inr (r, st') \<longrightarrow> cache_good st5
            \<longrightarrow> cache_good st'"
    and "\<forall>st'. compute_track_sizereqs_loop dir6 i6 cis6 st6 = Inr st' \<longrightarrow> cache_good st6
            \<longrightarrow> cache_good st'"
proof (induction dir pw w st and dir2 pw2 i k st2 and cs3 st3 and cs4 cw4 st4
         and dir5 pw5 cs5 r5 st5 and dir6 i6 cis6 st6
       rule: get_preferred_size_v_get_preferred_size_preferred_widths_preferred_heights_stack_preferred_size_compute_track_sizereqs_loop.induct)
  case (1 dir prosp_width i p k st)
  show ?case
  proof (intro allI impI)
    fix r st'
    assume run: "get_preferred_size dir prosp_width (Widget i p k) st = Inr (r, st')"
      and good: "cache_good st"
    show "sr_good r \<and> cache_good st'"
    proof (cases "cache_hit dir prosp_width (st i)")
      case True
      with run have "r = cached_sr (st i) dir" "st' = st"
        by (auto split: if_splits)
      moreover from True have "cached_sr_valid (st i) dir" by (simp add: cache_hit_def)
      ultimately show ?thesis using good by (auto simp: cache_good_def)
    next
      case False
      with run obtain ret st1 where
        v: "v_get_preferred_size dir (inner_width p dir prosp_width) i k st = Inr (ret, st1)"
        and f: "finish_size_req p dir ret = Inr r"
        and s: "st' = st1(i := cache_store dir (inner_width p dir prosp_width) r (st1 i))"
        and a: "\<not> (dir = HORZ) \<noteq> (prosp_width = - 1)"
        by (auto split: if_splits sum.splits prod.splits)
      from "1.IH"[OF a False] v good have "cache_good st1" by blast
      with finish_size_req_good[OF f] s show ?thesis
        by (simp add: cache_good_store)
    qed
  qed
next
  case (2 dir prosp_width i hook st)
  then show ?case by simp
next
  case (3 dir prosp_width i horz align_items justify_items children st)
  show ?case
  proof (intro allI impI)
    fix r st'
    assume run: "v_get_preferred_size dir prosp_width i (Box horz align_items justify_items children) st
                 = Inr (r, st')" and good: "cache_good st"
    from run obtain sr st1 where w: "preferred_widths children st = Inr (sr, st1)"
      by (auto split: sum.splits prod.splits)
    from "3.IH"(1) w good have g1: "cache_good st1" by blast
    show "cache_good st'"
    proof (cases "dir = VERT")
      case False
      with run w show ?thesis using g1 by auto
    next
      case True
      with run w obtain cw sr' where
        c: "(if horz then layout_main_axis (map (\<lambda>c. flex_grow (props c)) children) sr prosp_width
             else Inr (layout_cross_axis align_items (map (\<lambda>c. align_self (props c)) children)
                        sr prosp_width)) = Inr cw"
        and h: "preferred_heights children cw st1 = Inr (sr', st')"
        by (auto split: sum.splits prod.splits)
      from "3.IH"(2)[OF w refl True c] h g1 show ?thesis by blast
    qed
  qed
next
  case (4 dir prosp_width i children st)
  then show ?case by simp
next
  case (5 dir prosp_width i new_track children st)
  show ?case
  proof (intro allI impI)
    fix r st'
    assume run: "v_get_preferred_size dir prosp_width i (Grid new_track children) st = Inr (r, st')"
      and good: "cache_good st"
    define st0 where "st0 = st(i := init_track_info new_track (map snd children) (st i))"
    define st0' where "st0' = st0(i := set_tracks HORZ (reset_track_sr (tracks_of HORZ (st0 i))) (st0 i))"
    have g0: "cache_good st0'"
      unfolding st0'_def st0_def using good
      by (intro cache_good_set_tracks cache_good_init)
    from run obtain st1 where l1: "compute_track_sizereqs_loop HORZ i children st0' = Inr st1"
      by (auto simp: Let_def st0_def st0'_def split: sum.splits)
    from "5.IH"(1)[OF st0_def] l1 g0 have g1: "cache_good st1"
      unfolding st0'_def by blast
    show "cache_good st'"
    proof (cases "dir = HORZ")
      case True
      with run l1 show ?thesis using g1 by (auto simp: Let_def st0_def st0'_def)
    next
      case False
      with run l1 obtain cols where
        lt: "layout_track (track_total (m_col_info (st1 i))) prosp_width (m_col_info (st1 i)) = Inr cols"
        by (auto simp: Let_def st0_def st0'_def split: sum.splits)
      define st2 where "st2 = st1(i := (st1 i)\<lparr>m_col_info := set_track_offsets cols\<rparr>)"
      define st2' where "st2' = st2(i := set_tracks VERT (reset_track_sr (tracks_of VERT (st2 i))) (st2 i))"
      have g2: "cache_good st2'"
        unfolding st2'_def st2_def using g1
        by (intro cache_good_set_tracks cache_good_cols)
      from run l1 lt False have l2: "compute_track_sizereqs_loop VERT i children st2' = Inr st'"
        by (auto simp: Let_def st0_def st0'_def st2_def st2'_def split: sum.splits)
      from "5.IH"(2)[OF st0_def l1[unfolded st0'_def] False lt st2_def] l2 g2
      show ?thesis unfolding st2'_def by blast
    qed
  qed
next
  case (6 st)
  then show ?case by simp
next
  case (7 c cs st)
  show ?case
  proof (intro allI impI)
    fix rs st'
    assume run: "preferred_widths (c # cs) st = Inr (rs, st')" and good: "cache_good st"
    from run obtain r st1 rs' where a: "get_preferred_size HORZ (- 1) c st = Inr (r, st1)"
      and b: "preferred_widths cs st1 = Inr (rs', st')"
      by (auto split: sum.splits prod.splits)
    from "7.IH"(1) a good have "cache_good st1" by blast
    with "7.IH"(2)[OF a refl] b show "cache_good st'" by blast
  qed
next
  case (8 cw st)
  then show ?case by simp
next
  case (9 c cs st)
  then show ?case by simp
next
  case (10 c cs w cw st)
  show ?case
  proof (intro allI impI)
    fix rs st'
    assume run: "preferred_heights (c # cs) (w # cw) st = Inr (rs, st')" and good: "cache_good st"
    from run obtain r st1 rs' where a: "get_preferred_size VERT w c st = Inr (r, st1)"
      and b: "preferred_heights cs cw st1 = Inr (rs', st')"
      by (auto split: sum.splits prod.splits)
    from "10.IH"(1) a good have "cache_good st1" by blast
    with "10.IH"(2)[OF a refl] b show "cache_good st'" by blast
  qed
next
  case (11 dir prosp_width r st)
  then show ?case by simp
next
  case (12 dir prosp_width child children r st)
  show ?case
  proof (intro allI impI)
    fix r' st'
    assume run: "stack_preferred_size dir prosp_width (child # children) r st = Inr (r', st')"
      and good: "cache_good st"
    from run obtain c st1 where a: "get_preferred_size dir prosp_width child st = Inr (c, st1)"
      and b: "stack_preferred_size dir prosp_width children
            \<lparr>min_sz = max (min_sz r) (min_sz c), nat_sz = max (nat_sz r) (nat_sz c)\<rparr> st1 = Inr (r', st')"
      by (auto split: sum.splits prod.splits)
    from "12.IH"(1) a good have "cache_good st1" by blast
    with "12.IH"(2)[OF a refl] b show "cache_good st'" by blast
  qed
next
  case (13 dir i st)
  then show ?case by simp
next
  case (14 dir i child info children st)
  show ?case
  proof (intro allI impI)
    fix st'
    assume run: "compute_track_sizereqs_loop dir i ((child, info) # children) st = Inr st'"
      and good: "cache_good st"
    define pwr where "pwr = (if dir = VERT
            then (case get_tracks_region (m_col_info (st i)) (m_row_info (st i))
                         (fst (pos_ci info)) (snd (pos_ci info))
                         (fst (span_ci info)) (snd (span_ci info)) of
                    Inl e \<Rightarrow> Inl e
                  | Inr r \<Rightarrow> Inr (i4_get r 2))
            else Inr (-1))"
    from run obtain prosp_width c st1 tr where p: "pwr = Inr prosp_width"
      and a: "get_preferred_size dir prosp_width child st = Inr (c, st1)"
      and m: "merge_child_sr dir info c (tracks_of dir (st1 i)) = Inr tr"
      and b: "compute_track_sizereqs_loop dir i children (st1(i := set_tracks dir tr (st1 i))) = Inr st'"
      unfolding pwr_def by (auto split: sum.splits prod.splits)
    from "14.IH"(1)[OF p[unfolded pwr_def]] a good have "cache_good st1" by blast
    then have "cache_good (st1(i := set_tracks dir tr (st1 i)))" by (rule cache_good_set_tracks)
    with "14.IH"(2)[OF p[unfolded pwr_def] a refl m] b show "cache_good st'" by blast
  qed
qed

subsection \<open>What the containers hand to their children: C2\<close>















lemma tracks_of_set_tracks [simp]:
  "tracks_of dir (set_tracks dir tr ws) = tr"
  "tracks_of (other dir) (set_tracks dir tr ws) = tracks_of (other dir) ws"
  "m_region (set_tracks dir tr ws) = m_region ws"
  by (cases dir; simp add: tracks_of_def set_tracks_def other_def)+







lemma tracks_of_simps [simp]:
  "tracks_of HORZ ws = m_col_info ws" "tracks_of VERT ws = m_row_info ws"
  "other HORZ = VERT" "other VERT = HORZ"
  by (simp_all add: tracks_of_def other_def)

lemma set_tracks_simps [simp]:
  "m_col_info (set_tracks HORZ tr ws) = tr" "m_row_info (set_tracks HORZ tr ws) = m_row_info ws"
  "m_row_info (set_tracks VERT tr ws) = tr" "m_col_info (set_tracks VERT tr ws) = m_col_info ws"
  by (simp_all add: set_tracks_def)



lemmas evs = fresh_def plain_def new_track1_def init_track_info_def resize_tracks_def
      reset_track_sr_def tracks_of_def set_tracks_def cache_hit_def inner_width_def
      finish_size_req_def cache_store_def merge_child_sr_def track_total_def ui_expand_sz_def Let_def
      layout_track_def fdiv_def float_to_int_def set_track_offsets_def get_tracks_region_def
      layout_main_axis_def flex_loop.simps box_child_region_def child_align_def cross_offset_def
      cdiv_def numeral_2_eq_2 numeral_3_eq_3



subsection \<open>The root and the cache: C7, C1, C8\<close>

text \<open>
  Claim C7. A layout request with the dirty flag clear returns the root unchanged. With
  the flag set, a request that completes has measured the root horizontally with
  prospective width -1, taken \<open>width = max(min, m_w)\<close>, measured it vertically at that
  width, taken \<open>height = max(min, m_h)\<close>, placed the root at \<open>(0, 0, width, height)\<close> and
  cleared the flag; the viewport and the tree are as before. Hence a second request
  right after a completed one changes nothing, also after a \<^verbatim>\<open>resize\<close> to the size the
  root already has.
\<close>

theorem layout_once:
  "(\<not> m_dirty r \<longrightarrow> layout tile_local r = Inr r)
   \<and> (m_dirty r \<and> layout tile_local r = Inr r' \<longrightarrow>
        (\<exists>sr_horz st1 sr_vert st2 st3.
           get_preferred_size HORZ (-1) (m_root r) (widgets r) = Inr (sr_horz, st1)
           \<and> get_preferred_size VERT (max (min_sz sr_horz) (m_w r)) (m_root r) st1
               = Inr (sr_vert, st2)
           \<and> allocate_region
                 (0, 0, max (min_sz sr_horz) (m_w r), max (min_sz sr_vert) (m_h r))
                 (m_root r) st2 = Inr st3
           \<and> widgets r' = st3 \<and> \<not> m_dirty r'
           \<and> m_w r' = m_w r \<and> m_h r' = m_h r \<and> m_root r' = m_root r))
   \<and> (layout tile_local r = Inr r' \<longrightarrow>
        \<not> m_dirty r' \<and> layout tile_local r' = Inr r'
        \<and> layout tile_local (resize (m_w r') (m_h r') r') = Inr r')"
proof -
  have a: "\<not> m_dirty r \<longrightarrow> layout tile_local r = Inr r"
    by (simp add: layout_def)
  have b: "m_dirty r \<and> layout tile_local r = Inr r' \<longrightarrow>
        (\<exists>sr_horz st1 sr_vert st2 st3.
           get_preferred_size HORZ (-1) (m_root r) (widgets r) = Inr (sr_horz, st1)
           \<and> get_preferred_size VERT (max (min_sz sr_horz) (m_w r)) (m_root r) st1
               = Inr (sr_vert, st2)
           \<and> allocate_region
                 (0, 0, max (min_sz sr_horz) (m_w r), max (min_sz sr_vert) (m_h r))
                 (m_root r) st2 = Inr st3
           \<and> widgets r' = st3 \<and> \<not> m_dirty r'
           \<and> m_w r' = m_w r \<and> m_h r' = m_h r \<and> m_root r' = m_root r)"
    by (auto simp: layout_def Let_def split: sum.splits prod.splits)
  have d: "\<not> m_dirty r'" if "layout tile_local r = Inr r'"
    using that by (auto simp: layout_def Let_def split: if_splits sum.splits prod.splits)
  have c: "layout tile_local r = Inr r' \<longrightarrow>
        \<not> m_dirty r' \<and> layout tile_local r' = Inr r'
        \<and> layout tile_local (resize (m_w r') (m_h r') r') = Inr r'"
    using d by (auto simp: layout_def resize_def)
  show ?thesis by (rule conjI[OF a conjI[OF b c]])
qed

text \<open>A root with one leaf in a viewport of 20 by 10: the second request changes nothing.\<close>

theorem layout_once_witness:
  "\<exists>r'. layout True
       \<lparr>m_w = 20, m_h = 10, m_region_ui = (0, 0, 0, 0),
        m_root = Widget 0 plain (Stack [Widget 1 plain (Leaf (\<lambda>d w. \<lparr>min_sz = 5, nat_sz = 50\<rparr>))]),
        m_dirty = True, widgets = (\<lambda>i. fresh)\<rparr> = Inr r'
     \<and> m_region (widgets r' 1) = (0, 0, 20, 10) \<and> \<not> m_dirty r'
     \<and> layout True r' = Inr r'"
proof -
  let ?r = "\<lparr>m_w = 20, m_h = 10, m_region_ui = (0, 0, 0, 0),
        m_root = Widget 0 plain (Stack [Widget 1 plain (Leaf (\<lambda>d w. \<lparr>min_sz = 5, nat_sz = 50\<rparr>))]),
        m_dirty = True, widgets = (\<lambda>i. fresh)\<rparr>"
  have "\<exists>r'. layout True ?r = Inr r' \<and> m_region (widgets r' 1) = (0, 0, 20, 10)"
    by (simp add: layout_def evs)
  then obtain r' where r: "layout True ?r = Inr r'"
    and m: "m_region (widgets r' 1) = (0, 0, 20, 10)"
    by blast
  from layout_once[of ?r True r'] r have "\<not> m_dirty r'" "layout True r' = Inr r'"
    by blast+
  with r m show ?thesis by blast
qed

text \<open>
  Claim C1 fails on the code. A widget with left and right margins of 1 is measured
  vertically at prospective width 10. The hook is called with the inner width 8 and
  returns a height of 92, and 8, not 10, is stored as the cache key. A second call with
  width 10 therefore misses the cache, and a call with width 8 is served the value
  cached for width 10, where measuring at width 8 gives 94.
\<close>

theorem get_preferred_size_cache_key_bug:
  "map_sum id fst (get_preferred_size VERT 10
      (Widget 0 (plain\<lparr>margin := (0, 1, 0, 1)\<rparr>)
         (Leaf (\<lambda>d w. if d = VERT then \<lparr>min_sz = 100 - w, nat_sz = 100 - w\<rparr>
                       else \<lparr>min_sz = 30, nat_sz = 30\<rparr>)))
      (\<lambda>i. fresh)) = Inr \<lparr>min_sz = 92, nat_sz = 92\<rparr>
   \<and> map_sum id (\<lambda>(r, st). cached_sr_pw (st 0)) (get_preferred_size VERT 10
      (Widget 0 (plain\<lparr>margin := (0, 1, 0, 1)\<rparr>)
         (Leaf (\<lambda>d w. if d = VERT then \<lparr>min_sz = 100 - w, nat_sz = 100 - w\<rparr>
                       else \<lparr>min_sz = 30, nat_sz = 30\<rparr>)))
      (\<lambda>i. fresh)) = Inr 8
   \<and> map_sum id (\<lambda>(r, st). cache_hit VERT 10 (st 0)) (get_preferred_size VERT 10
      (Widget 0 (plain\<lparr>margin := (0, 1, 0, 1)\<rparr>)
         (Leaf (\<lambda>d w. if d = VERT then \<lparr>min_sz = 100 - w, nat_sz = 100 - w\<rparr>
                       else \<lparr>min_sz = 30, nat_sz = 30\<rparr>)))
      (\<lambda>i. fresh)) = Inr False
   \<and> map_sum id fst (after (get_preferred_size VERT 10
      (Widget 0 (plain\<lparr>margin := (0, 1, 0, 1)\<rparr>)
         (Leaf (\<lambda>d w. if d = VERT then \<lparr>min_sz = 100 - w, nat_sz = 100 - w\<rparr>
                       else \<lparr>min_sz = 30, nat_sz = 30\<rparr>)))
      (\<lambda>i. fresh)) (get_preferred_size VERT 8
      (Widget 0 (plain\<lparr>margin := (0, 1, 0, 1)\<rparr>)
         (Leaf (\<lambda>d w. if d = VERT then \<lparr>min_sz = 100 - w, nat_sz = 100 - w\<rparr>
                       else \<lparr>min_sz = 30, nat_sz = 30\<rparr>))))) = Inr \<lparr>min_sz = 92, nat_sz = 92\<rparr>
   \<and> map_sum id fst (get_preferred_size VERT 8
      (Widget 0 (plain\<lparr>margin := (0, 1, 0, 1)\<rparr>)
         (Leaf (\<lambda>d w. if d = VERT then \<lparr>min_sz = 100 - w, nat_sz = 100 - w\<rparr>
                       else \<lparr>min_sz = 30, nat_sz = 30\<rparr>)))
      (\<lambda>i. fresh)) = Inr \<lparr>min_sz = 94, nat_sz = 94\<rparr>"
  by (simp add: fresh_def plain_def after_def cache_hit_def inner_width_def
      finish_size_req_def cache_store_def ui_expand_sz_def Let_def)

text \<open>
  Where the cache is exact: on the horizontal axis, and on the vertical axis when the
  left and right margins add up to 0 (the stored key is then the argument). A second
  call with the same arguments is served from the cache and returns the same SizeReq
  and the same state.
\<close>

lemma get_preferred_size_again:
  assumes "get_preferred_size dir prosp_width (Widget i p k) st = Inr (r, st')"
    and "dir = HORZ \<or> i4_get (margin p) 1 + i4_get (margin p) 3 = 0"
  shows "cache_hit dir prosp_width (st' i)
       \<and> get_preferred_size dir prosp_width (Widget i p k) st' = Inr (r, st')"
proof (cases "cache_hit dir prosp_width (st i)")
  case True
  with assms(1) have "r = cached_sr (st i) dir" "st' = st"
    by (auto split: if_splits)
  with True assms(1) show ?thesis by (auto split: if_splits)
next
  case False
  with assms(1) obtain ret st1 where
    s: "st' = st1(i := cache_store dir (inner_width p dir prosp_width) r (st1 i))"
    and a: "\<not> (dir = HORZ) \<noteq> (prosp_width = - 1)"
    by (auto split: if_splits sum.splits prod.splits)
  from assms(2) have iw: "inner_width p dir prosp_width = prosp_width"
    by (auto simp: inner_width_def)
  have h: "cache_hit dir prosp_width (st' i)"
    unfolding s iw by (cases dir) (simp_all add: cache_hit_def cache_store_def)
  have c: "cached_sr (st' i) dir = r"
    unfolding s iw by (cases dir) (simp_all add: cache_store_def)
  from h c a show ?thesis by simp
qed

lemma cache_good_region:
  "cache_good st \<Longrightarrow> cache_good (st(i := (st i)\<lparr>m_region := reg\<rparr>))"
  by (rule cache_good_same) simp_all

lemma cache_good_rows:
  "cache_good st \<Longrightarrow> cache_good (st(i := (st i)\<lparr>m_row_info := rows\<rparr>))"
  by (rule cache_good_same) simp_all

lemma cache_good_place:
  shows "\<forall>st'. allocate_region region w st = Inr st' \<longrightarrow> cache_good st \<longrightarrow> cache_good st'"
    and "\<forall>st'. v_allocate_region i k st2 = Inr st' \<longrightarrow> cache_good st2 \<longrightarrow> cache_good st'"
    and "\<forall>st'. box_place horz align_items i3 ho vo cr cs3 cw ch st3 = Inr st' \<longrightarrow> cache_good st3
            \<longrightarrow> cache_good st'"
    and "\<forall>st'. stack_place i4 cs4 st4 = Inr st' \<longrightarrow> cache_good st4 \<longrightarrow> cache_good st'"
    and "\<forall>st'. grid_place i5 kids st5 = Inr st' \<longrightarrow> cache_good st5 \<longrightarrow> cache_good st'"
proof (induction region w st and i k st2 and horz align_items i3 ho vo cr cs3 cw ch st3
         and i4 cs4 st4 and i5 kids st5
       rule: allocate_region_v_allocate_region_box_place_stack_place_grid_place.induct)
  case (1 region i p k st)
  show ?case
  proof (intro allI impI)
    fix st'
    assume run: "allocate_region region (Widget i p k) st = Inr st'" and good: "cache_good st"
    define reg where "reg = (i4_get region 0 + i4_get (margin p) 3,
                 i4_get region 1 + i4_get (margin p) 0,
                 i4_get region 2 - i4_get (margin p) 3 - i4_get (margin p) 1,
                 i4_get region 3 - i4_get (margin p) 0 - i4_get (margin p) 2)"
    define st1 where "st1 = st(i := (st i)\<lparr>m_region := reg\<rparr>)"
    from run have a: "\<not> \<not> 0 \<le> i4_get reg 2" and b: "\<not> \<not> 0 \<le> i4_get reg 3"
      and v: "v_allocate_region i k st1 = Inr st'"
      unfolding reg_def st1_def by (auto simp: Let_def split: if_splits)
    have "cache_good st1" unfolding st1_def using good by (rule cache_good_region)
    with "1.IH"[OF reg_def st1_def a b] v show "cache_good st'" by blast
  qed
next
  case (2 i hook st)
  then show ?case by simp
next
  case (3 i horz align_items justify_items children st)
  show ?case
  proof (intro allI impI)
    fix st'
    assume run: "v_allocate_region i (Box horz align_items justify_items children) st = Inr st'"
      and good: "cache_good st"
    let ?fgs = "map (\<lambda>c. flex_grow (props c)) children"
    let ?als = "map (\<lambda>c. align_self (props c)) children"
    from run obtain sr st1 where w: "preferred_widths children st = Inr (sr, st1)"
      by (auto split: sum.splits prod.splits)
    from run w obtain cw where
      cw: "(if horz then layout_main_axis ?fgs sr (i4_get (m_region (st1 i)) 2)
            else Inr (layout_cross_axis align_items ?als sr (i4_get (m_region (st1 i)) 2))) = Inr cw"
      by (auto split: sum.splits prod.splits)
    from run w cw obtain sr' st2 where h: "preferred_heights children cw st1 = Inr (sr', st2)"
      by (auto split: sum.splits prod.splits)
    from run w cw h obtain ch where
      ch: "(if horz then Inr (layout_cross_axis align_items ?als sr' (i4_get (m_region (st2 i)) 3))
            else layout_main_axis ?fgs sr' (i4_get (m_region (st2 i)) 3)) = Inr ch"
      by (auto split: sum.splits prod.splits)
    define xb where "xb = i4_get (m_region (st2 i)) (if horz then 2 else 3)
                           - sum_list (if horz then cw else ch)"
    define xc where "xc = cdiv (xb * justify_pos justify_items) 2"
    define xd where "xd = i4_get (m_region (st2 i)) 0 + (if horz then xc else 0)"
    define xe where "xe = i4_get (m_region (st2 i)) 1 + (if \<not> horz then xc else 0)"
    from run w cw h ch have nn: "\<not> \<not> 0 \<le> xb"
      and pl: "box_place horz align_items i xd xe (xd, xe, 0, 0) children cw ch st2 = Inr st'"
      unfolding xb_def xc_def xd_def xe_def
      by (auto simp: Let_def split: sum.splits prod.splits if_splits)
    from cache_good_measure(3) w good have g1: "cache_good st1" by blast
    from cache_good_measure(4) h g1 have g2: "cache_good st2" by blast
    from "3.IH"[OF w refl cw h refl ch xb_def nn xc_def xd_def xe_def] pl g2
    show "cache_good st'" by blast
  qed
next
  case (4 i children st)
  then show ?case by simp
next
  case (5 i new_track children st)
  show ?case
  proof (intro allI impI)
    fix st'
    assume run: "v_allocate_region i (Grid new_track children) st = Inr st'"
      and good: "cache_good st"
    from run obtain h_sr st1 where
      v: "v_get_preferred_size VERT (i4_get (m_region (st i)) 2) i (Grid new_track children) st
            = Inr (h_sr, st1)"
      by (auto split: sum.splits prod.splits)
    from run v obtain rows where
      lt: "layout_track h_sr (i4_get (m_region (st1 i)) 3) (m_row_info (st1 i)) = Inr rows"
      and pl: "grid_place i children (st1(i := (st1 i)\<lparr>m_row_info := set_track_offsets rows\<rparr>))
                 = Inr st'"
      by (auto split: sum.splits prod.splits)
    from cache_good_measure(2) v good have "cache_good st1" by blast
    then have "cache_good (st1(i := (st1 i)\<lparr>m_row_info := set_track_offsets rows\<rparr>))"
      by (rule cache_good_rows)
    with "5.IH"[OF v refl lt] pl show "cache_good st'" by blast
  qed
next
  case (6 horz align_items i ho vo cr cw ch st)
  then show ?case by simp
next
  case (7 horz align_items i ho vo cr c cs ch st)
  then show ?case by simp
next
  case (8 horz align_items i ho vo cr c cs w cw st)
  then show ?case by simp
next
  case (9 horz align_items i ho vo cr c cs w cw h ch st)
  show ?case
  proof (intro allI impI)
    fix st'
    assume run: "box_place horz align_items i ho vo cr (c # cs) (w # cw) (h # ch) st = Inr st'"
      and good: "cache_good st"
    from run obtain cr' st1 where
      a: "box_child_region horz align_items (m_region (st i)) ho vo cr (align_self (props c)) w h
            = Inr cr'"
      and b: "allocate_region cr' c st = Inr st1"
      and c: "box_place horz align_items i ho vo
                 (i4_set cr' (if horz then 0 else 1)
                    (i4_get cr' (if horz then 0 else 1) + i4_get cr' (if horz then 2 else 3)))
                 cs cw ch st1 = Inr st'"
      by (auto split: sum.splits)
    from "9.IH"(1)[OF a] b good have "cache_good st1" by blast
    with "9.IH"(2)[OF a b] c show "cache_good st'" by blast
  qed
next
  case (10 i st)
  then show ?case by simp
next
  case (11 i child children st)
  show ?case
  proof (intro allI impI)
    fix st'
    assume run: "stack_place i (child # children) st = Inr st'" and good: "cache_good st"
    from run obtain pw st1 where a: "get_preferred_size HORZ (- 1) child st = Inr (pw, st1)"
      by (auto split: sum.splits prod.splits)
    define xa where "xa = i4_set (m_region (st i)) 2
            (min (max (min_sz pw) (i4_get (m_region (st1 i)) 2)) (nat_sz pw))"
    from run a obtain ph st2 where b: "get_preferred_size VERT (i4_get xa 2) child st1 = Inr (ph, st2)"
      unfolding xa_def by (auto simp: Let_def split: sum.splits prod.splits)
    from run a b obtain st3 where
      c: "allocate_region (i4_set xa 3
                (min (max (min_sz ph) (i4_get (m_region (st2 i)) 3)) (nat_sz ph))) child st2 = Inr st3"
      and d: "stack_place i children st3 = Inr st'"
      unfolding xa_def by (auto simp: Let_def split: sum.splits prod.splits)
    from cache_good_measure(1) a good have g1: "cache_good st1" by blast
    from cache_good_measure(1) b g1 have g2: "cache_good st2" by blast
    from "11.IH"(1)[OF a refl xa_def b refl] c g2 have "cache_good st3" by blast
    with "11.IH"(2)[OF a refl xa_def b refl c] d show "cache_good st'" by blast
  qed
next
  case (12 i st)
  then show ?case by simp
next
  case (13 i child info children st)
  show ?case
  proof (intro allI impI)
    fix st'
    assume run: "grid_place i ((child, info) # children) st = Inr st'" and good: "cache_good st"
    from run obtain cell_reg st1 where
      a: "get_tracks_region (m_col_info (st i)) (m_row_info (st i))
             (fst (pos_ci info)) (snd (pos_ci info))
             (fst (span_ci info)) (snd (span_ci info)) = Inr cell_reg"
      and b: "allocate_region (i4_get cell_reg 0 + i4_get (m_region (st i)) 0,
                   i4_get cell_reg 1 + i4_get (m_region (st i)) 1,
                   i4_get cell_reg 2, i4_get cell_reg 3) child st = Inr st1"
      and c: "grid_place i children st1 = Inr st'"
      by (auto split: sum.splits)
    from "13.IH"(1)[OF a] b good have "cache_good st1" by blast
    with "13.IH"(2)[OF a b] c show "cache_good st'" by blast
  qed
qed

lemma cache_good_layout:
  assumes "layout tile_local r = Inr r'" and "cache_good (widgets r)"
  shows "cache_good (widgets r')"
proof (cases "m_dirty r")
  case False
  with assms show ?thesis by (simp add: layout_def)
next
  case True
  with assms(1) obtain sr_horz st1 sr_vert st2 st3 where
    a: "get_preferred_size HORZ (-1) (m_root r) (widgets r) = Inr (sr_horz, st1)"
    and b: "get_preferred_size VERT (max (min_sz sr_horz) (m_w r)) (m_root r) st1 = Inr (sr_vert, st2)"
    and c: "allocate_region (0, 0, max (min_sz sr_horz) (m_w r), max (min_sz sr_vert) (m_h r))
                 (m_root r) st2 = Inr st3"
    and d: "widgets r' = st3"
    by (auto simp: layout_def Let_def split: sum.splits prod.splits)
  from cache_good_measure(1) a assms(2) have "cache_good st1" by blast
  with cache_good_measure(1) b have "cache_good st2" by blast
  with cache_good_place(1) c have "cache_good st3" by blast
  with d show ?thesis by simp
qed

text \<open>
  Claim C8, as amended. \<open>cache_good\<close> says that every valid cache entry is a SizeReq with
  nat at most the ceiling \<^verbatim>\<open>0xffffff\<close> and with min \<open>\<le>\<close> nat unless min is above the
  ceiling. It holds when nothing is cached, and measuring, placing and a root layout
  keep it. In such a state, the SizeReq that \<^verbatim>\<open>get_preferred_size\<close> returns for any
  widget and axis, computed or cached, has nat at most the ceiling, and min \<open>\<le>\<close> nat
  whenever min (the hook's minimum plus the margins) is at most the ceiling.
\<close>

theorem get_preferred_size_min_le_nat:
  assumes "cache_good st" and "get_preferred_size dir pw w st = Inr (r, st')"
  shows "nat_sz r \<le> ui_expand_sz \<and> (min_sz r \<le> ui_expand_sz \<longrightarrow> min_sz r \<le> nat_sz r)
       \<and> cache_good st'
       \<and> cache_good (\<lambda>i. fresh)
       \<and> (\<forall>region w2 s s'. cache_good s \<and> allocate_region region w2 s = Inr s'
             \<longrightarrow> cache_good s')
       \<and> (\<forall>tile_local u u'. cache_good (widgets u) \<and> layout tile_local u = Inr u'
             \<longrightarrow> cache_good (widgets u'))"
proof -
  from cache_good_measure(1) assms have g: "sr_good r" and c: "cache_good st'" by blast+
  from g have a: "nat_sz r \<le> ui_expand_sz \<and> (min_sz r \<le> ui_expand_sz \<longrightarrow> min_sz r \<le> nat_sz r)"
    by (auto simp: sr_good_def)
  have f: "cache_good (\<lambda>i. fresh)" by (simp add: cache_good_def fresh_def)
  have p: "\<forall>region w2 s s'. cache_good s \<and> allocate_region region w2 s = Inr s' \<longrightarrow> cache_good s'"
    using cache_good_place(1) by blast
  have l: "\<forall>tile_local u u'. cache_good (widgets u) \<and> layout tile_local u = Inr u'
             \<longrightarrow> cache_good (widgets u')"
    using cache_good_layout by blast
  show ?thesis using a c f p l by blast
qed

text \<open>A widget with margins and the expand flag, measured in a state with nothing cached.\<close>

theorem get_preferred_size_min_le_nat_witness:
  "cache_good (\<lambda>i. fresh)
   \<and> map_sum id fst (get_preferred_size HORZ (-1)
        (Widget 0 (plain\<lparr>margin := (0, 2, 0, 3), expand_h := True\<rparr>)
           (Leaf (\<lambda>d w. \<lparr>min_sz = 20, nat_sz = 30\<rparr>))) (\<lambda>i. fresh))
     = Inr \<lparr>min_sz = 25, nat_sz = 16777215\<rparr>
   \<and> (25::int) \<le> 16777215"
proof -
  let ?w = "Widget 0 (plain\<lparr>margin := (0, 2, 0, 3), expand_h := True\<rparr>)
           (Leaf (\<lambda>d w. \<lparr>min_sz = 20, nat_sz = 30\<rparr>))"
  have g: "cache_good (\<lambda>i. fresh)" by (simp add: cache_good_def fresh_def)
  have "\<exists>st'. get_preferred_size HORZ (-1) ?w (\<lambda>i. fresh)
          = Inr (\<lparr>min_sz = 25, nat_sz = 16777215\<rparr>, st')"
    by (simp add: evs)
  then obtain st' where r: "get_preferred_size HORZ (-1) ?w (\<lambda>i. fresh)
          = Inr (\<lparr>min_sz = 25, nat_sz = 16777215\<rparr>, st')"
    by blast
  from get_preferred_size_min_le_nat[OF g r]
  have "min_sz \<lparr>min_sz = 25, nat_sz = 16777215\<rparr> \<le> ui_expand_sz
        \<longrightarrow> min_sz \<lparr>min_sz = 25, nat_sz = 16777215\<rparr> \<le> nat_sz \<lparr>min_sz = 25, nat_sz = (16777215::int)\<rparr>"
    by blast
  with g r show ?thesis by (simp add: ui_expand_sz_def)
qed

text \<open>
  Claim C8 as stated fails: a leaf whose hook reports a width of 20000000, more than
  the ceiling \<^verbatim>\<open>0xffffff\<close> = 16777215. The final clamp lowers nat to the ceiling and
  leaves min alone, so the SizeReq returned has min above nat.
\<close>

theorem get_preferred_size_min_le_nat_counterexample:
  "map_sum id fst (get_preferred_size HORZ (-1)
      (Widget 0 plain (Leaf (\<lambda>d w. \<lparr>min_sz = 20000000, nat_sz = 20000000\<rparr>))) (\<lambda>i. fresh))
   = Inr \<lparr>min_sz = 20000000, nat_sz = 16777215\<rparr>
   \<and> (16777215::int) < 20000000"
  by (simp add: fresh_def plain_def cache_hit_def inner_width_def
      finish_size_req_def cache_store_def ui_expand_sz_def Let_def)

end
